theory Spec2Isabelle
  imports Complex_Main "HOL-Library.AList"
begin

section \<open>JavaScript values\<close>

text \<open>
  The component works on untyped data (\<^verbatim>\<open>unknown\<close>): configuration entries, the view model
  and the values of form controls. A value is a primitive or an object. An object carries
  its own properties as an association list in insertion order; assigning to a key it has
  replaces the value in place, assigning to a new key appends it, which is what
  \<^const>\<open>AList.update\<close> does. The kind of an object tells a plain object from a function
  (a component class is one), a regular expression and a promise; functions and promises
  are told apart by a number. Arrays appear as objects keyed by their indices.

  Scope of the model: objects are values (trees), so two references to one object and
  cyclic objects are not represented; the properties of an object are its own, writable
  data properties, so that reads do not see what is inherited from a prototype or supplied
  by the wrapper of a primitive (a string's \<^verbatim>\<open>length\<close>) and writes to an object succeed;
  numbers are real numbers and \<^verbatim>\<open>NaN\<close>.
\<close>

datatype kind = Plain | Function nat | RegExp string | Promise nat

datatype jsval =
    Undefined
  | Null
  | Bool bool
  | Num real
  | NaN
  | Str string
  | Obj kind "(string \<times> jsval) list"

text \<open>Abrupt completions: what a call does instead of returning. \<open>Pending\<close> stands for an
  \<^verbatim>\<open>await\<close> on a promise that never settles, after which the rest of the function never runs.\<close>

datatype abrupt = TypeError | DataCloneError | Thrown jsval | Pending

text \<open>\<^verbatim>\<open>if (v)\<close>, \<^verbatim>\<open>!v\<close>, \<^verbatim>\<open>a && b\<close>: the falsy values are \<^verbatim>\<open>undefined\<close>, \<^verbatim>\<open>null\<close>, \<^verbatim>\<open>false\<close>,
  \<^verbatim>\<open>0\<close>, \<^verbatim>\<open>NaN\<close> and the empty string.\<close>

fun truthy :: "jsval \<Rightarrow> bool" where
  "truthy Undefined = False"
| "truthy Null = False"
| "truthy (Bool b) = b"
| "truthy (Num r) = (r \<noteq> 0)"
| "truthy NaN = False"
| "truthy (Str s) = (s \<noteq> [])"
| "truthy (Obj k ps) = True"

text \<open>\<^verbatim>\<open>v == null\<close>: true of \<^verbatim>\<open>null\<close> and \<^verbatim>\<open>undefined\<close> only.\<close>

definition nullish :: "jsval \<Rightarrow> bool" where
  "nullish v = (v = Null \<or> v = Undefined)"

fun isObj :: "jsval \<Rightarrow> bool" where
  "isObj (Obj k ps) = True"
| "isObj v = False"

text \<open>\<^verbatim>\<open>obj[key]\<close> on a value that is neither \<^verbatim>\<open>null\<close> nor \<^verbatim>\<open>undefined\<close>: the own property,
  \<^verbatim>\<open>undefined\<close> when there is none.\<close>

fun getProp :: "jsval \<Rightarrow> string \<Rightarrow> jsval" where
  "getProp (Obj k ps) key = (case map_of ps key of Some v \<Rightarrow> v | None \<Rightarrow> Undefined)"
| "getProp v key = Undefined"

text \<open>\<^verbatim>\<open>s.includes(sub)\<close>.\<close>

fun str_includes :: "string \<Rightarrow> string \<Rightarrow> bool" where
  "str_includes [] sub = (sub = [])"
| "str_includes (c # cs) sub = (take (length sub) (c # cs) = sub \<or> str_includes cs sub)"


section \<open>Paths into a model: \<^verbatim>\<open>getModelPropertyValue\<close> and \<^verbatim>\<open>setModelPropertyValue\<close>\<close>

text \<open>The \<^verbatim>\<open>property\<close> parameter has type \<^verbatim>\<open>Array<string> | string\<close>; the callers pass
  the optional \<^verbatim>\<open>modelProperty\<close> of the configuration, which may be \<^verbatim>\<open>undefined\<close>.\<close>

datatype property = PString string | PArray "string list" | PUndefined

fun truthyProperty :: "property \<Rightarrow> bool" where
  "truthyProperty (PString s) = (s \<noteq> [])"
| "truthyProperty (PArray ks) = True"
| "truthyProperty PUndefined = False"

text \<open>
  \<^verbatim>\<open>property.match(/([^[.\]])+/g)\<close>: the maximal runs of characters other than \<^verbatim>\<open>[\<close>,
  \<^verbatim>\<open>.\<close> and \<^verbatim>\<open>]\<close>, from left to right; \<^verbatim>\<open>null\<close> (here \<open>None\<close>) when there is no such
  run. \<open>runs cur s\<close> reads \<open>s\<close> with \<open>cur\<close> the run read so far.
\<close>

definition isSeparator :: "char \<Rightarrow> bool" where
  "isSeparator c = (c = CHR ''['' \<or> c = CHR ''.'' \<or> c = CHR '']'')"

fun runs :: "string \<Rightarrow> string \<Rightarrow> string list" where
  "runs cur [] = (if cur = [] then [] else [cur])"
| "runs cur (c # cs) =
     (if isSeparator c then (if cur = [] then runs [] cs else cur # runs [] cs)
      else runs (cur @ [c]) cs)"

definition match_path :: "string \<Rightarrow> string list option" where
  "match_path s = (case runs [] s of [] \<Rightarrow> None | r # rs \<Rightarrow> Some (r # rs))"

text \<open>\<^verbatim>\<open>Array.isArray(property) ? property : property.match(...)\<close>. \<open>None\<close> means that there
  is no array to reduce: \<^verbatim>\<open>match\<close> returned \<^verbatim>\<open>null\<close>, or \<^verbatim>\<open>property\<close> is \<^verbatim>\<open>undefined\<close> and
  has no \<^verbatim>\<open>match\<close>. Either way the caller raises a TypeError.\<close>

fun pathArray :: "property \<Rightarrow> string list option" where
  "pathArray (PArray ks) = Some ks"
| "pathArray (PString s) = match_path s"
| "pathArray PUndefined = None"

text \<open>\<^verbatim>\<open>pathArray.reduce((prevObj, key) => prevObj && prevObj[key], model)\<close>.\<close>

definition reduce_get :: "jsval \<Rightarrow> string list \<Rightarrow> jsval" where
  "reduce_get model ks =
     foldl (\<lambda>prevObj key. if truthy prevObj then getProp prevObj key else prevObj) model ks"

text \<open>\<^verbatim>\<open>getModelPropertyValue(model, property, defaultValue)\<close>.\<close>

definition getModelPropertyValue :: "jsval \<Rightarrow> property \<Rightarrow> jsval \<Rightarrow> abrupt + jsval" where
  "getModelPropertyValue model property defaultValue =
     (if \<not> truthyProperty property then Inr Undefined
      else case pathArray property of
          None \<Rightarrow> Inl TypeError
        | Some ks \<Rightarrow>
            (let result = reduce_get model ks
             in Inr (if \<not> nullish result then result else defaultValue)))"

text \<open>
  The reducer of \<^verbatim>\<open>setModelPropertyValue\<close>, which mutates the model in place; the model
  returns the accumulator as the walk leaves it, with the abrupt completion if there was one:
  \<^verbatim>\<open>
  (acc, key, i) => {
      if (acc[key] === undefined) { acc[key] = {}; }
      if (i === pathArray.length - 1) { acc[key] = value; }
      return acc[key]
  }\<close>
  Reading a property of \<^verbatim>\<open>null\<close> or \<^verbatim>\<open>undefined\<close> raises a TypeError, and so does, in
  the strict mode of a class body, creating a property on a primitive.
\<close>

fun reduce_set :: "jsval \<Rightarrow> string list \<Rightarrow> jsval \<Rightarrow> abrupt option \<times> jsval" where
  "reduce_set acc [] v = (None, acc)"
| "reduce_set acc (key # rest) v =
     (case acc of
        Obj k ps \<Rightarrow>
          (let ps1 = (if getProp acc key = Undefined then AList.update key (Obj Plain []) ps else ps);
               ps2 = (if rest = [] then AList.update key v ps1 else ps1);
               r = reduce_set (getProp (Obj k ps2) key) rest v
           in (fst r, Obj k (AList.update key (snd r) ps2)))
      | _ \<Rightarrow> (Some TypeError, acc))"

definition setModelPropertyValue :: "jsval \<Rightarrow> property \<Rightarrow> jsval \<Rightarrow> abrupt option \<times> jsval" where
  "setModelPropertyValue model property v =
     (case pathArray property of
        None \<Rightarrow> (Some TypeError, model)
      | Some ks \<Rightarrow> reduce_set model ks v)"


section \<open>The registry: \<^verbatim>\<open>FGDynamicService\<close>\<close>

text \<open>\<^verbatim>\<open>private static _components: Record<string, Type<unknown>> = {}\<close>; in
  \<^verbatim>\<open>unnamed/part_000\<close> an entry may also be a promise of a type, and the lookup is called
  \<^verbatim>\<open>getComponent\<close>.\<close>

type_synonym registry = "(string \<times> jsval) list"


definition getComponentByName :: "registry \<Rightarrow> string \<Rightarrow> jsval" where
  "getComponentByName components name =
     (case map_of components name of Some ty \<Rightarrow> ty | None \<Rightarrow> Undefined)"

definition getComponent :: "registry \<Rightarrow> string \<Rightarrow> jsval" where
  "getComponent components name =
     (case map_of components name of Some ty \<Rightarrow> ty | None \<Rightarrow> Undefined)"


section \<open>The platform and the framework\<close>

text \<open>
  The component delegates to the JavaScript runtime and to the UI framework, which are not
  code of this repository. What they compute is a parameter of the model:
  \<^item> \<open>js_eval code vm event\<close> is \<^verbatim>\<open>eval(code)\<close> in a scope where \<^verbatim>\<open>$vm\<close> is the view-model signal
    (\<open>vm\<close> is the value it holds, \<open>None\<close> when no signal was passed) and \<^verbatim>\<open>$event\<close> is
    \<open>event\<close>: a value, or an exception. Effects of the evaluated code are not modelled;
  \<^item> \<open>settled n\<close> is what \<^verbatim>\<open>await\<close> on promise \<open>n\<close> gives: its value, its rejection
    (\<open>Thrown\<close>), or \<open>Pending\<close> when it never settles;
  \<^item> \<open>toNumber\<close> is the conversion to a number of a string or an object (\<open>None\<close> is
    \<^verbatim>\<open>NaN\<close>) and \<open>toText\<close> the conversion to a string of a value that is neither a string nor
    a boolean;
  \<^item> \<open>instantiate\<close> is what \<^verbatim>\<open>ViewContainerRef.createComponent\<close> makes of a component type.
\<close>

datatype validator =
    VMin jsval | VMax jsval | VRequired | VEmail | VMaxLength jsval | VMinLength jsval
  | VPattern jsval

text \<open>A \<^verbatim>\<open>FormControl\<close>: its value, whether it is enabled, and its synchronous validators.\<close>

record FormControl =
  fc_value :: jsval
  fc_enabled :: bool
  fc_validators :: "validator list"

text \<open>A \<^verbatim>\<open>ComponentRef\<close>: the type it was created from, the names of the properties of its
  instance that are \<^verbatim>\<open>EventEmitter\<close>s, and the attributes of \<^verbatim>\<open>location.nativeElement\<close>.\<close>

record ComponentRef =
  componentType :: jsval
  emitters :: "string list"
  nativeElement :: "(string \<times> string) list"

record platform =
  js_eval :: "string \<Rightarrow> jsval option \<Rightarrow> jsval \<Rightarrow> abrupt + jsval"
  settled :: "nat \<Rightarrow> abrupt + jsval"
  toNumber :: "jsval \<Rightarrow> real option"
  toText :: "jsval \<Rightarrow> string"
  instantiate :: "jsval \<Rightarrow> abrupt + ComponentRef"

text \<open>\<^verbatim>\<open>await v\<close>: a value that is not a promise is its own result.\<close>

definition await :: "platform \<Rightarrow> jsval \<Rightarrow> abrupt + jsval" where
  "await p v = (case v of Obj (Promise n) ps \<Rightarrow> settled p n | _ \<Rightarrow> Inr v)"

text \<open>\<^verbatim>\<open>typeof v === 'string'\<close>, \<^verbatim>\<open>typeof v === 'number'\<close>, \<^verbatim>\<open>v instanceof RegExp\<close>.\<close>

fun isString :: "jsval \<Rightarrow> bool" where
  "isString (Str s) = True"
| "isString v = False"

fun isNumber :: "jsval \<Rightarrow> bool" where
  "isNumber (Num r) = True"
| "isNumber NaN = True"
| "isNumber v = False"

fun isRegExp :: "jsval \<Rightarrow> bool" where
  "isRegExp (Obj (RegExp r) ps) = True"
| "isRegExp v = False"

text \<open>\<^verbatim>\<open>v > 0\<close> and \<^verbatim>\<open>v.toString()\<close>.\<close>

fun gt0 :: "platform \<Rightarrow> jsval \<Rightarrow> bool" where
  "gt0 p (Num r) = (0 < r)"
| "gt0 p (Bool b) = b"
| "gt0 p NaN = False"
| "gt0 p Null = False"
| "gt0 p Undefined = False"
| "gt0 p v = (case toNumber p v of Some r \<Rightarrow> 0 < r | None \<Rightarrow> False)"

fun toString :: "platform \<Rightarrow> jsval \<Rightarrow> string" where
  "toString p (Str s) = s"
| "toString p (Bool b) = (if b then ''true'' else ''false'')"
| "toString p v = toText p v"

text \<open>\<^verbatim>\<open>element.getAttribute(name)\<close>: the attribute, or \<^verbatim>\<open>null\<close>.\<close>

definition getAttribute :: "(string \<times> string) list \<Rightarrow> string \<Rightarrow> jsval" where
  "getAttribute el name = (case map_of el name of Some s \<Rightarrow> Str s | None \<Rightarrow> Null)"

text \<open>
  \<^verbatim>\<open>structuredClone(v)\<close>: primitives and plain objects are copied, property by property; a
  regular expression is copied without the properties added to it; a function or a promise
  cannot be cloned.
\<close>

fun structuredClone :: "jsval \<Rightarrow> abrupt + jsval"
  and cloneProps :: "(string \<times> jsval) list \<Rightarrow> abrupt + (string \<times> jsval) list" where
  "structuredClone (Obj Plain ps) =
     (case cloneProps ps of Inl a \<Rightarrow> Inl a | Inr qs \<Rightarrow> Inr (Obj Plain qs))"
| "structuredClone (Obj (RegExp r) ps) = Inr (Obj (RegExp r) [])"
| "structuredClone (Obj (Function n) ps) = Inl DataCloneError"
| "structuredClone (Obj (Promise n) ps) = Inl DataCloneError"
| "structuredClone Undefined = Inr Undefined"
| "structuredClone Null = Inr Null"
| "structuredClone (Bool b) = Inr (Bool b)"
| "structuredClone (Num r) = Inr (Num r)"
| "structuredClone NaN = Inr NaN"
| "structuredClone (Str s) = Inr (Str s)"
| "cloneProps [] = Inr []"
| "cloneProps (kv # ps) =
     (case structuredClone (snd kv) of
        Inl a \<Rightarrow> Inl a
      | Inr w \<Rightarrow> (case cloneProps ps of Inl a \<Rightarrow> Inl a | Inr qs \<Rightarrow> Inr ((fst kv, w) # qs)))"


section \<open>Expressions: \<^verbatim>\<open>evaluateExpression\<close>\<close>

text \<open>
  \<^verbatim>\<open>evaluateExpression(value, $vm?, $event?)\<close>. The view-model signal is \<open>Some x\<close> when it is
  passed and holds \<open>x\<close>; an event that is not passed is \<^verbatim>\<open>undefined\<close>. The file
  \<^verbatim>\<open>fg-dynamic.component.ts\<close> tests
  \<^verbatim>\<open>typeof(value) === 'string' && ((value.includes('$vm') && $vm() != null) ||
      (value.includes('$event') && $event != null))\<close>,
  where calling a signal that was not passed raises a TypeError; \<^verbatim>\<open>unnamed/part_000\<close> tests
  \<^verbatim>\<open>$vm != null && $vm() != null\<close> in its place.
\<close>

definition holdsValue :: "jsval option \<Rightarrow> bool" where
  "holdsValue vm = (case vm of None \<Rightarrow> False | Some x \<Rightarrow> \<not> nullish x)"

definition evaluateExpression ::
  "platform \<Rightarrow> jsval \<Rightarrow> jsval option \<Rightarrow> jsval \<Rightarrow> abrupt + jsval" where
  "evaluateExpression p v vm event =
     (case v of
        Str s \<Rightarrow>
          if str_includes s ''$vm'' \<and> vm = None then Inl TypeError
          else if (str_includes s ''$vm'' \<and> holdsValue vm)
                  \<or> (str_includes s ''$event'' \<and> \<not> nullish event)
          then js_eval p s vm event
          else Inr v
      | _ \<Rightarrow> Inr v)"

definition evaluateExpression_p0 ::
  "platform \<Rightarrow> jsval \<Rightarrow> jsval option \<Rightarrow> jsval \<Rightarrow> abrupt + jsval" where
  "evaluateExpression_p0 p v vm event =
     (case v of
        Str s \<Rightarrow>
          if (str_includes s ''$vm'' \<and> holdsValue vm)
             \<or> (str_includes s ''$event'' \<and> \<not> nullish event)
          then js_eval p s vm event
          else Inr v
      | _ \<Rightarrow> Inr v)"



section \<open>The component: configuration, signals and private fields\<close>

text \<open>
  \<^verbatim>\<open>FGDynamicItem\<close>. A field that is absent is \<^verbatim>\<open>undefined\<close> (\<open>None\<close> for a record of
  inputs, outputs or attributes and for \<^verbatim>\<open>modelProperty\<close>). The interface of
  \<^verbatim>\<open>unnamed/part_000\<close> has \<^verbatim>\<open>type\<close>, \<^verbatim>\<open>inputs\<close>, \<^verbatim>\<open>outputs\<close> and \<^verbatim>\<open>attributes\<close> only.
  \<^verbatim>\<open>items\<close> is read by the template alone and is left out.
\<close>

record FGDynamicItem =
  type :: jsval
  inputs :: "(string \<times> jsval) list option"
  outputs :: "(string \<times> jsval) list option"
  attributes :: "(string \<times> jsval) list option"
  hidden :: jsval
  disabled :: jsval
  modelProperty :: "string option"
  min_item :: jsval
  max_item :: jsval
  required :: jsval
  email :: jsval
  minLength :: jsval
  maxLength :: jsval
  pattern :: jsval

text \<open>
  What the host application and the framework hold when a method of the component runs:
  the values of the signals \<^verbatim>\<open>configuration\<close> (\<open>None\<close>: \<^verbatim>\<open>null\<close> or \<^verbatim>\<open>undefined\<close>),
  \<^verbatim>\<open>viewModel\<close>, \<^verbatim>\<open>formGroup\<close> (is there a form group), \<^verbatim>\<open>_viewContainerRef\<close> (is there a
  container) and \<^verbatim>\<open>_dynamicItems\<close> (how many), whether the host element has a parent, and
  the static registry.
\<close>

record host =
  configuration :: "FGDynamicItem option"
  viewModel :: jsval
  formGroup :: bool
  viewContainerRef :: bool
  dynamicItems :: nat
  hostParent :: bool
  components :: registry

text \<open>The calls of the component that act on objects of the framework, in the order made.\<close>

datatype call =
    CreateComponent jsval bool bool
  | MarkForCheck
  | RemoveHostElement
  | Subscribe string
  | Unsubscribe string
  | NewFormControlDirective
  | AddControl string FormControl
  | SubscribeValueChanges
  | UnsubscribeValueChanges
  | AttachDirective
  | SetInput string jsval
  | SetAttribute string jsval
  | SetStyle
  | RemoveStyle

text \<open>
  The private fields of \<^verbatim>\<open>FGDynamicComponent\<close>: \<^verbatim>\<open>_component\<close>, \<^verbatim>\<open>_componentRef\<close>,
  \<^verbatim>\<open>_outputsSubscriptions\<close> (the outputs subscribed to), \<^verbatim>\<open>_formControl\<close>,
  \<^verbatim>\<open>_formControlDirective\<close> (is there one), \<^verbatim>\<open>_formGroupSubscription\<close> or, in
  \<^verbatim>\<open>unnamed/part_000\<close>, \<^verbatim>\<open>_formControlSubscription\<close> (is there one); and the calls made so far.
\<close>

record FGDynamicComponent =
  component :: jsval
  componentRef :: "ComponentRef option"
  outputsSubscriptions :: "string list"
  formControl :: "FormControl option"
  formControlDirective :: bool
  formGroupSubscription :: bool
  calls :: "call list"

definition initial :: FGDynamicComponent where
  "initial = \<lparr> component = Undefined, componentRef = None, outputsSubscriptions = [],
     formControl = None, formControlDirective = False, formGroupSubscription = False,
     calls = [] \<rparr>"

text \<open>A method returns the fields as it leaves them, with its abrupt completion if it has
  one. \<open>steps\<close> runs methods in sequence and stops at the first abrupt completion.\<close>

type_synonym step = "FGDynamicComponent \<Rightarrow> abrupt option \<times> FGDynamicComponent"

fun steps :: "step list \<Rightarrow> step" where
  "steps [] s = (None, s)"
| "steps (f # fs) s = (case f s of (None, s') \<Rightarrow> steps fs s' | (Some a, s') \<Rightarrow> (Some a, s'))"

definition call :: "call list \<Rightarrow> FGDynamicComponent \<Rightarrow> FGDynamicComponent" where
  "call cs s = s\<lparr>calls := calls s @ cs\<rparr>"

text \<open>\<^verbatim>\<open>record[key]\<close> for a record of the configuration.\<close>

definition entry :: "(string \<times> jsval) list \<Rightarrow> string \<Rightarrow> jsval" where
  "entry ps key = (case map_of ps key of Some v \<Rightarrow> v | None \<Rightarrow> Undefined)"

text \<open>\<^verbatim>\<open>this._renderer.setAttribute(this._componentRef.location.nativeElement, name, v)\<close>: the
  element stores the text of \<open>v\<close>.\<close>

definition setAttribute :: "platform \<Rightarrow> string \<Rightarrow> jsval \<Rightarrow> FGDynamicComponent \<Rightarrow> FGDynamicComponent" where
  "setAttribute p name v s =
     (case componentRef s of
        None \<Rightarrow> s
      | Some r \<Rightarrow>
          call [SetAttribute name v]
            (s\<lparr>componentRef := Some (r\<lparr>nativeElement := AList.update name (toString p v) (nativeElement r)\<rparr>)\<rparr>))"

text \<open>The \<^verbatim>\<open>for (const inputName in inputs)\<close> loop of \<^verbatim>\<open>setInputs\<close>; \<open>ev\<close> is
  \<^verbatim>\<open>evaluateExpression\<close> with the view model.\<close>

fun setInputs_each ::
  "(jsval \<Rightarrow> abrupt + jsval) \<Rightarrow> (string \<times> jsval) list \<Rightarrow> string list \<Rightarrow> step" where
  "setInputs_each ev ins [] s = (None, s)"
| "setInputs_each ev ins (inputName # names) s =
     (case ev (entry ins inputName) of
        Inl a \<Rightarrow> (Some a, s)
      | Inr v \<Rightarrow> setInputs_each ev ins names (call [SetInput inputName v] s))"


text \<open>The loop of \<^verbatim>\<open>setAttributes\<close> in \<^verbatim>\<open>unnamed/part_000\<close>, which sets an attribute only when
  \<^verbatim>\<open>value !== nativeElement.getAttribute(attributeName)\<close>.\<close>

fun setAttributes_each_p0 ::
  "platform \<Rightarrow> (jsval \<Rightarrow> abrupt + jsval) \<Rightarrow> (string \<times> jsval) list \<Rightarrow> string list \<Rightarrow> step" where
  "setAttributes_each_p0 p ev attrs [] s = (None, s)"
| "setAttributes_each_p0 p ev attrs (attributeName # names) s =
     (case ev (entry attrs attributeName) of
        Inl a \<Rightarrow> (Some a, s)
      | Inr v \<Rightarrow>
          setAttributes_each_p0 p ev attrs names
            (case componentRef s of
               None \<Rightarrow> s
             | Some r \<Rightarrow>
                 if v \<noteq> getAttribute (nativeElement r) attributeName
                 then setAttribute p attributeName v s else s))"

text \<open>
  The validators of \<^verbatim>\<open>setFormControlValidators\<close>. Each block of the method evaluates one
  configured value and pushes a validator when the result passes a test; a rule is the
  configured value with the test. \<open>collect\<close> runs the blocks in order.
\<close>

type_synonym rule = "jsval \<times> (jsval \<Rightarrow> validator option)"

fun collect :: "(jsval \<Rightarrow> abrupt + jsval) \<Rightarrow> rule list \<Rightarrow> abrupt + validator list" where
  "collect ev [] = Inr []"
| "collect ev (r # rs) =
     (case ev (fst r) of
        Inl a \<Rightarrow> Inl a
      | Inr y \<Rightarrow>
          (case collect ev rs of
             Inl a \<Rightarrow> Inl a
           | Inr vs \<Rightarrow> Inr ((case snd r y of Some w \<Rightarrow> [w] | None \<Rightarrow> []) @ vs)))"

definition whenever :: "bool \<Rightarrow> validator \<Rightarrow> validator option" where
  "whenever b w = (if b then Some w else None)"



section \<open>The methods of \<^verbatim>\<open>fg-dynamic.component.ts\<close>\<close>

text \<open>\<^verbatim>\<open>this.evaluateExpression(x, this.viewModel)\<close>.\<close>

definition ev :: "platform \<Rightarrow> host \<Rightarrow> jsval \<Rightarrow> abrupt + jsval" where
  "ev p h x = evaluateExpression p x (Some (viewModel h)) Undefined"

definition loadComponentAsync :: "platform \<Rightarrow> host \<Rightarrow> step" where
  "loadComponentAsync p h s =
     (case configuration h of
        None \<Rightarrow> (Some TypeError, s)
      | Some c \<Rightarrow>
          if \<not> nullish (type c) \<and> \<not> truthy (component s) then
            (case type c of
               Str name \<Rightarrow> (None, s\<lparr>component := getComponentByName (components h) name\<rparr>)
             | _ \<Rightarrow>
                 (case await p (type c) of
                    Inl a \<Rightarrow> (Some a, s)
                  | Inr ty \<Rightarrow> (None, s\<lparr>component := ty\<rparr>)))
          else (None, s))"

definition removeHostElement :: "host \<Rightarrow> FGDynamicComponent \<Rightarrow> FGDynamicComponent" where
  "removeHostElement h s = (if hostParent h then call [RemoveHostElement] s else s)"


definition attachFormControlDirective :: "FGDynamicComponent \<Rightarrow> FGDynamicComponent" where
  "attachFormControlDirective s =
     (if \<not> formControlDirective s \<and> componentRef s \<noteq> None
      then call [NewFormControlDirective, AttachDirective] (s\<lparr>formControlDirective := True\<rparr>)
      else s)"

definition createFormControl :: "host \<Rightarrow> step" where
  "createFormControl h s =
     (case configuration h of
        None \<Rightarrow> (None, s)
      | Some c \<Rightarrow>
          (case modelProperty c of
             None \<Rightarrow> (None, s)
           | Some name \<Rightarrow>
               if formGroup h \<and> name \<noteq> [] \<and> truthy (viewModel h) then
                 (case getModelPropertyValue (viewModel h) (PString name) Null of
                    Inl a \<Rightarrow> (Some a, s)
                  | Inr v \<Rightarrow>
                      (let fc = \<lparr> fc_value = v, fc_enabled = True, fc_validators = [] \<rparr>
                       in (None,
                           attachFormControlDirective
                             (call ([AddControl name fc]
                                    @ (if formGroupSubscription s then [UnsubscribeValueChanges] else [])
                                    @ [SubscribeValueChanges])
                                (s\<lparr>formControl := Some fc, formGroupSubscription := True\<rparr>)))))
               else (None, s)))"


definition setInputs :: "platform \<Rightarrow> host \<Rightarrow> step" where
  "setInputs p h s =
     (case configuration h of
        None \<Rightarrow> (None, s)
      | Some c \<Rightarrow>
          (case inputs c of
             None \<Rightarrow> (None, s)
           | Some ins \<Rightarrow>
               if componentRef s \<noteq> None then setInputs_each (ev p h) ins (map fst ins) s
               else (None, s)))"




text \<open>The seven blocks of \<^verbatim>\<open>setFormControlValidators\<close>, in the order of the source. The last
  one, which pushes \<^verbatim>\<open>Validators.pattern\<close>, evaluates \<^verbatim>\<open>this.configuration().minLength\<close>.\<close>

definition rules :: "platform \<Rightarrow> FGDynamicItem \<Rightarrow> rule list" where
  "rules p c =
     [(min_item c, \<lambda>y. whenever (isNumber y) (VMin y)),
      (max_item c, \<lambda>y. whenever (isNumber y) (VMax y)),
      (required c, \<lambda>y. whenever (y = Bool True) VRequired),
      (email c, \<lambda>y. whenever (y = Bool True) VEmail),
      (maxLength c, \<lambda>y. whenever (gt0 p y) (VMaxLength y)),
      (minLength c, \<lambda>y. whenever (gt0 p y) (VMinLength y)),
      (minLength c, \<lambda>y. whenever (isString y \<or> isRegExp y) (VPattern y))]"

text \<open>\<^verbatim>\<open>clearValidators()\<close> comes first, so an evaluation that throws leaves the control with
  no validator.\<close>

definition setFormControlValidators :: "platform \<Rightarrow> host \<Rightarrow> step" where
  "setFormControlValidators p h s =
     (case formControl s of
        None \<Rightarrow> (None, s)
      | Some fc \<Rightarrow>
          (case configuration h of
             None \<Rightarrow> (None, s)
           | Some c \<Rightarrow>
               (case collect (ev p h) (rules p c) of
                  Inl a \<Rightarrow> (Some a, s\<lparr>formControl := Some (fc\<lparr>fc_validators := []\<rparr>)\<rparr>)
                | Inr vs \<Rightarrow> (None, s\<lparr>formControl := Some (fc\<lparr>fc_validators := vs\<rparr>)\<rparr>))))"


text \<open>
  The subscriber of \<^verbatim>\<open>formGroup().valueChanges\<close> that \<^verbatim>\<open>createFormControl\<close> installs. \<open>model\<close>
  is what \<^verbatim>\<open>this.formGroup().getRawValue()\<close> returns; the result is the value of the
  view-model signal afterwards.
\<close>

definition modelPropertyOf :: "FGDynamicItem \<Rightarrow> property" where
  "modelPropertyOf c = (case modelProperty c of None \<Rightarrow> PUndefined | Some name \<Rightarrow> PString name)"

definition formGroupValueChanges :: "host \<Rightarrow> jsval \<Rightarrow> abrupt option \<times> jsval" where
  "formGroupValueChanges h model =
     (if truthy model then
        (case configuration h of
           None \<Rightarrow> (Some TypeError, viewModel h)
         | Some c \<Rightarrow>
             (case getModelPropertyValue model (modelPropertyOf c) Null of
                Inl a \<Rightarrow> (Some a, viewModel h)
              | Inr v \<Rightarrow>
                  (case structuredClone (viewModel h) of
                     Inl a \<Rightarrow> (Some a, viewModel h)
                   | Inr vm \<Rightarrow>
                       (case setModelPropertyValue vm (modelPropertyOf c) v of
                          (None, vm') \<Rightarrow> (None, vm')
                        | (Some a, vm') \<Rightarrow> (Some a, viewModel h)))))
      else (None, viewModel h))"



section \<open>The methods of \<^verbatim>\<open>unnamed/part_000\<close>\<close>

text \<open>The first file of \<^verbatim>\<open>unnamed/part_000\<close> (its lines 1 to 441) reads the name of the control,
  its status and its validators from \<^verbatim>\<open>attributes\<close>. \<^verbatim>\<open>removeHostElement\<close>,
  \<^verbatim>\<open>getModelPropertyValue\<close> and \<^verbatim>\<open>setModelPropertyValue\<close> are those above.\<close>

definition ev_p0 :: "platform \<Rightarrow> host \<Rightarrow> jsval \<Rightarrow> abrupt + jsval" where
  "ev_p0 p h x = evaluateExpression_p0 p x (Some (viewModel h)) Undefined"

definition loadComponentAsync_p0 :: "platform \<Rightarrow> host \<Rightarrow> step" where
  "loadComponentAsync_p0 p h s =
     (case configuration h of
        None \<Rightarrow> (Some TypeError, s)
      | Some c \<Rightarrow>
          if \<not> nullish (type c) \<and> \<not> truthy (component s) then
            (case type c of
               Str name \<Rightarrow>
                 (case await p (getComponent (components h) name) of
                    Inl a \<Rightarrow> (Some a, s)
                  | Inr ty \<Rightarrow> (None, s\<lparr>component := ty\<rparr>))
             | _ \<Rightarrow>
                 (case await p (type c) of
                    Inl a \<Rightarrow> (Some a, s)
                  | Inr ty \<Rightarrow> (None, s\<lparr>component := ty\<rparr>)))
          else (None, s))"

definition handleOutputs_p0 :: "host \<Rightarrow> FGDynamicComponent \<Rightarrow> FGDynamicComponent" where
  "handleOutputs_p0 h s =
     (case configuration h of
        None \<Rightarrow> s
      | Some c \<Rightarrow>
          (case outputs c of
             None \<Rightarrow> s
           | Some outs \<Rightarrow>
               (case componentRef s of
                  None \<Rightarrow> s
                | Some r \<Rightarrow>
                    if outs \<noteq> [] then
                      (let new = filter (\<lambda>outputName. List.member (emitters r) outputName) (map fst outs)
                       in call (map Subscribe new)
                            (s\<lparr>outputsSubscriptions := outputsSubscriptions s @ new\<rparr>))
                    else s)))"

definition attachFormControlDirective_p0 :: "FGDynamicComponent \<Rightarrow> FGDynamicComponent" where
  "attachFormControlDirective_p0 s =
     (if formControlDirective s \<and> componentRef s \<noteq> None \<and> formControl s \<noteq> None
      then call [AttachDirective] s else s)"

definition createFormControl_p0 :: "platform \<Rightarrow> host \<Rightarrow> step" where
  "createFormControl_p0 p h s =
     (case configuration h of
        None \<Rightarrow> (None, s)
      | Some c \<Rightarrow>
          (case attributes c of
             None \<Rightarrow> (None, s)
           | Some attrs \<Rightarrow>
               if formGroup h \<and> truthy (entry attrs ''name'') \<and> truthy (viewModel h) then
                 (case ev_p0 p h (entry attrs ''name'') of
                    Inl a \<Rightarrow> (Some a, s)
                  | Inr (Str name) \<Rightarrow>
                      (case getModelPropertyValue (viewModel h) (PString name) Null of
                         Inl a \<Rightarrow> (Some a, s)
                       | Inr v \<Rightarrow>
                           (let fc = \<lparr> fc_value = v, fc_enabled = True, fc_validators = [] \<rparr>
                            in (None,
                                attachFormControlDirective_p0
                                  (call [AddControl name fc, SubscribeValueChanges]
                                     (s\<lparr>formControl := Some fc, formGroupSubscription := True\<rparr>)))))
                  | Inr _ \<Rightarrow> (None, s))
               else (None, s)))"

text \<open>The test of \<^verbatim>\<open>createComponent\<close> that decides whether a \<^verbatim>\<open>FormControlDirective\<close> is
  provided to the new component.\<close>

definition namesControl_p0 :: "platform \<Rightarrow> host \<Rightarrow> abrupt + bool" where
  "namesControl_p0 p h =
     (case configuration h of
        None \<Rightarrow> Inr False
      | Some c \<Rightarrow>
          (case attributes c of
             None \<Rightarrow> Inr False
           | Some attrs \<Rightarrow>
               if formGroup h \<and> truthy (entry attrs ''name'') then
                 (case ev_p0 p h (entry attrs ''name'') of
                    Inl a \<Rightarrow> Inl a
                  | Inr n \<Rightarrow> Inr (isString n \<and> truthy (viewModel h)))
               else Inr False))"

definition createComponent_p0 :: "platform \<Rightarrow> host \<Rightarrow> step" where
  "createComponent_p0 p h s =
     (if truthy (component s) \<and> componentRef s = None \<and> viewContainerRef h
         \<and> \<not> formControlDirective s then
        (case namesControl_p0 p h of
           Inl a \<Rightarrow> (Some a, s)
         | Inr d \<Rightarrow>
             (let s0 = (if d then call [NewFormControlDirective] (s\<lparr>formControlDirective := True\<rparr>)
                        else s)
              in case instantiate p (component s0) of
                   Inl a \<Rightarrow> (Some a, s0)
                 | Inr r \<Rightarrow>
                     createFormControl_p0 p h
                       (handleOutputs_p0 h
                         (removeHostElement h
                           (call [CreateComponent (component s0) (0 < dynamicItems h) d, MarkForCheck]
                             (s0\<lparr>componentRef := Some r\<rparr>))))))
      else (None, s))"

definition setInputs_p0 :: "platform \<Rightarrow> host \<Rightarrow> step" where
  "setInputs_p0 p h s =
     (case configuration h of
        None \<Rightarrow> (None, s)
      | Some c \<Rightarrow>
          (case inputs c of
             None \<Rightarrow> (None, s)
           | Some ins \<Rightarrow>
               if ins \<noteq> [] \<and> componentRef s \<noteq> None
               then setInputs_each (ev_p0 p h) ins (map fst ins) s
               else (None, s)))"

text \<open>\<^verbatim>\<open>setFormControlStatus\<close> reads \<^verbatim>\<open>this.configuration().attributes\<close> without \<^verbatim>\<open>?.\<close>, and
  switches the control only when the evaluated value is a boolean that differs from its
  status.\<close>

definition setFormControlStatus_p0 :: "platform \<Rightarrow> host \<Rightarrow> step" where
  "setFormControlStatus_p0 p h s =
     (case formControl s of
        None \<Rightarrow> (None, s)
      | Some fc \<Rightarrow>
          (case configuration h of
             None \<Rightarrow> (Some TypeError, s)
           | Some c \<Rightarrow>
               (case attributes c of
                  None \<Rightarrow> (None, s)
                | Some attrs \<Rightarrow>
                    if \<not> nullish (entry attrs ''disabled'') then
                      (case ev_p0 p h (entry attrs ''disabled'') of
                         Inl a \<Rightarrow> (Some a, s)
                       | Inr (Bool isDisabled) \<Rightarrow>
                           (None,
                            if (isDisabled \<and> fc_enabled fc) \<or> (\<not> isDisabled \<and> \<not> fc_enabled fc)
                            then s\<lparr>formControl := Some (fc\<lparr>fc_enabled := \<not> isDisabled\<rparr>)\<rparr>
                            else s)
                       | Inr _ \<Rightarrow> (None, s))
                    else (None, s))))"

text \<open>The seven blocks of \<^verbatim>\<open>setFormControlValidators\<close>: each also requires the text of the
  evaluated value to differ from the attribute of that name on the element \<open>el\<close> of the
  created component; the last one requires a string.\<close>

definition rules_p0 :: "platform \<Rightarrow> (string \<times> string) list \<Rightarrow> (string \<times> jsval) list \<Rightarrow> rule list" where
  "rules_p0 p el attrs =
     [(entry attrs ''min'',
         \<lambda>y. whenever (isNumber y \<and> Str (toString p y) \<noteq> getAttribute el ''min'') (VMin y)),
      (entry attrs ''max'',
         \<lambda>y. whenever (isNumber y \<and> Str (toString p y) \<noteq> getAttribute el ''max'') (VMax y)),
      (entry attrs ''required'',
         \<lambda>y. whenever (y = Bool True \<and> Str (toString p y) \<noteq> getAttribute el ''required'') VRequired),
      (entry attrs ''email'',
         \<lambda>y. whenever (y = Bool True \<and> Str (toString p y) \<noteq> getAttribute el ''email'') VEmail),
      (entry attrs ''maxlength'',
         \<lambda>y. whenever (gt0 p y \<and> Str (toString p y) \<noteq> getAttribute el ''maxlength'') (VMaxLength y)),
      (entry attrs ''minlength'',
         \<lambda>y. whenever (gt0 p y \<and> Str (toString p y) \<noteq> getAttribute el ''minlength'') (VMinLength y)),
      (entry attrs ''pattern'',
         \<lambda>y. whenever (isString y \<and> y \<noteq> getAttribute el ''pattern'') (VPattern y))]"

text \<open>The validators of the control are replaced only when a block pushed one.\<close>

definition setFormControlValidators_p0 :: "platform \<Rightarrow> host \<Rightarrow> step" where
  "setFormControlValidators_p0 p h s =
     (case formControl s of
        None \<Rightarrow> (None, s)
      | Some fc \<Rightarrow>
          (case configuration h of
             None \<Rightarrow> (None, s)
           | Some c \<Rightarrow>
               (case attributes c of
                  None \<Rightarrow> (None, s)
                | Some attrs \<Rightarrow>
                    (case componentRef s of
                       None \<Rightarrow> (None, s)
                     | Some r \<Rightarrow>
                         if attrs \<noteq> [] then
                           (case collect (ev_p0 p h) (rules_p0 p (nativeElement r) attrs) of
                              Inl a \<Rightarrow> (Some a, s)
                            | Inr vs \<Rightarrow>
                                (None,
                                 if vs \<noteq> [] then s\<lparr>formControl := Some (fc\<lparr>fc_validators := vs\<rparr>)\<rparr>
                                 else s))
                         else (None, s)))))"

definition setAttributes_p0 :: "platform \<Rightarrow> host \<Rightarrow> step" where
  "setAttributes_p0 p h s =
     (case configuration h of
        None \<Rightarrow> (None, s)
      | Some c \<Rightarrow>
          (case attributes c of
             None \<Rightarrow> (None, s)
           | Some attrs \<Rightarrow>
               if attrs \<noteq> [] \<and> componentRef s \<noteq> None
               then setAttributes_each_p0 p (ev_p0 p h) attrs (map fst attrs) s
               else (None, s)))"

definition ngOnChanges_p0 :: "platform \<Rightarrow> host \<Rightarrow> step" where
  "ngOnChanges_p0 p h =
     steps [loadComponentAsync_p0 p h, createComponent_p0 p h, setInputs_p0 p h,
            setFormControlStatus_p0 p h, setFormControlValidators_p0 p h, setAttributes_p0 p h]"

text \<open>The subscriber of \<^verbatim>\<open>this._formControl.valueChanges\<close>: \<open>name\<close> is the evaluated name of
  the control, \<open>v\<close> the value emitted; the result is the value of the view-model signal
  afterwards.\<close>

definition formControlValueChanges :: "host \<Rightarrow> string \<Rightarrow> jsval \<Rightarrow> abrupt option \<times> jsval" where
  "formControlValueChanges h name v =
     (case structuredClone (viewModel h) of
        Inl a \<Rightarrow> (Some a, viewModel h)
      | Inr vm \<Rightarrow>
          (case setModelPropertyValue vm (PString name) v of
             (None, vm') \<Rightarrow> (None, vm')
           | (Some a, vm') \<Rightarrow> (Some a, viewModel h)))"

text \<open>A run of the component: \<^verbatim>\<open>ngOnChanges\<close> is invoked once for each state of the platform
  and the host, one invocation after the other; an invocation that completes abruptly
  leaves the fields as they are at that point, and the next one starts from them.\<close>

fun run ::
  "(platform \<Rightarrow> host \<Rightarrow> step) \<Rightarrow> (platform \<times> host) list \<Rightarrow> FGDynamicComponent \<Rightarrow> FGDynamicComponent" where
  "run f [] s = s"
| "run f (ph # phs) s = run f phs (snd (f (fst ph) (snd ph) s))"



section \<open>Vocabulary of the properties\<close>

text \<open>\<open>intermediatesAreObjects model ks\<close>: along the path \<open>ks\<close>, every value met before the
  last segment is an object or is missing (\<^verbatim>\<open>undefined\<close>).\<close>

fun intermediatesAreObjects :: "jsval \<Rightarrow> string list \<Rightarrow> bool" where
  "intermediatesAreObjects m [] = True"
| "intermediatesAreObjects m [key] = True"
| "intermediatesAreObjects m (key # rest) =
     (getProp m key = Undefined \<or>
      (isObj (getProp m key) \<and> intermediatesAreObjects (getProp m key) rest))"

text \<open>\<open>nest [k1, ..., kn] v\<close> is \<^verbatim>\<open>{k1: {... {kn: v}}}\<close>: objects created empty, each given one
  property.\<close>

fun nest :: "string list \<Rightarrow> jsval \<Rightarrow> jsval" where
  "nest [] v = v"
| "nest (key # rest) v = Obj Plain [(key, nest rest v)]"


text \<open>\<open>mentions v sub\<close>: \<open>v\<close> is a string that includes \<open>sub\<close>.\<close>

fun mentions :: "jsval \<Rightarrow> string \<Rightarrow> bool" where
  "mentions (Str s) sub = str_includes s sub"
| "mentions v sub = False"

text \<open>Concrete inputs for the examples: a platform whose \<^verbatim>\<open>eval\<close> throws its argument, whose
  promises never settle and which creates no component; the empty configuration \<^verbatim>\<open>{}\<close>;
  a host with nothing in it.\<close>

definition throwing :: platform where
  "throwing = \<lparr> js_eval = (\<lambda>code vm event. Inl (Thrown (Str code))), settled = (\<lambda>n. Inl Pending),
     toNumber = (\<lambda>v. None), toText = (\<lambda>v. []), instantiate = (\<lambda>ty. Inl TypeError) \<rparr>"

definition emptyItem :: FGDynamicItem where
  "emptyItem = \<lparr> type = Undefined, inputs = None, outputs = None, attributes = None,
     hidden = Undefined, disabled = Undefined, modelProperty = None, min_item = Undefined,
     max_item = Undefined, required = Undefined, email = Undefined, minLength = Undefined,
     maxLength = Undefined, pattern = Undefined \<rparr>"

definition emptyHost :: host where
  "emptyHost = \<lparr> configuration = Some emptyItem, viewModel = Undefined, formGroup = False,
     viewContainerRef = False, dynamicItems = 0, hostParent = False, components = [] \<rparr>"

text \<open>A platform on which promise \<open>n\<close> is fulfilled with class \<open>n\<close>; the view model
  \<^verbatim>\<open>{data: {firstName: 'Jhon'}}\<close> of the README.\<close>

definition lazy :: platform where
  "lazy = throwing\<lparr>settled := (\<lambda>n. Inr (Obj (Function n) []))\<rparr>"

definition jhon :: jsval where
  "jhon = Obj Plain [(''data'', Obj Plain [(''firstName'', Str ''Jhon'')])]"

text \<open>A host with a form group and the view model of the README, whose configuration names
  the control \<^verbatim>\<open>data.firstName\<close> both ways; the same with the number \<^verbatim>\<open>0\<close> for view model and
  \<^verbatim>\<open>a\<close> for name.\<close>

definition fullHost :: host where
  "fullHost = emptyHost\<lparr>configuration :=
       Some (emptyItem\<lparr>modelProperty := Some ''data.firstName'',
          attributes := Some [(''name'', Str ''data.firstName'')]\<rparr>),
     viewModel := jhon, formGroup := True\<rparr>"

definition zeroHost :: host where
  "zeroHost = emptyHost\<lparr>configuration :=
       Some (emptyItem\<lparr>modelProperty := Some ''a'', attributes := Some [(''name'', Str ''a'')]\<rparr>),
     viewModel := Num 0, formGroup := True\<rparr>"

text \<open>A component that has been created, with a form control; a host whose configuration
  gives \<open>pat\<close> for pattern, as a field and as an attribute.\<close>

definition control0 :: FormControl where
  "control0 = \<lparr> fc_value = Null, fc_enabled = True, fc_validators = [] \<rparr>"

definition ref0 :: ComponentRef where
  "ref0 = \<lparr> componentType = Obj (Function 0) [], emitters = [], nativeElement = [] \<rparr>"

definition created :: FGDynamicComponent where
  "created = initial\<lparr>component := Obj (Function 0) [], componentRef := Some ref0,
     formControl := Some control0\<rparr>"

definition patternHost :: "jsval \<Rightarrow> host" where
  "patternHost pat = emptyHost\<lparr>configuration :=
       Some (emptyItem\<lparr>pattern := pat, attributes := Some [(''pattern'', pat)]\<rparr>)\<rparr>"

text \<open>A host with two inputs, one an expression on the view model \<^verbatim>\<open>{count: 2}\<close>, and a
  platform whose \<^verbatim>\<open>eval\<close> returns \<^verbatim>\<open>$vm().count\<close>.\<close>

definition inputsHost :: host where
  "inputsHost = emptyHost\<lparr>configuration :=
       Some (emptyItem\<lparr>inputs := Some [(''hello'', Str ''world''), (''count'', Str ''$vm().count'')]\<rparr>),
     viewModel := Obj Plain [(''count'', Num 2)]\<rparr>"

definition counting :: platform where
  "counting = throwing\<lparr>js_eval := (\<lambda>code vm event.
       case vm of Some m \<Rightarrow> Inr (getProp m ''count'') | None \<Rightarrow> Inl TypeError)\<rparr>"

text \<open>A platform that creates components, and a host whose configuration has the registered
  type \<^verbatim>\<open>A\<close> and one input.\<close>

definition creating :: platform where
  "creating = throwing\<lparr>instantiate :=
     (\<lambda>ty. Inr \<lparr> componentType = ty, emitters = [], nativeElement = [] \<rparr>)\<rparr>"

definition typedHost :: host where
  "typedHost = emptyHost\<lparr>configuration :=
       Some (emptyItem\<lparr>type := Str ''A'', inputs := Some [(''hello'', Str ''world'')]\<rparr>),
     components := [(''A'', Obj (Function 1) [])], viewContainerRef := True\<rparr>"









section \<open>Properties of the paths\<close>

lemma truthy_Obj: "isObj v \<Longrightarrow> truthy v"
  by (cases v) simp_all


lemma reduce_get_Nil: "reduce_get m [] = m"
  by (simp add: reduce_get_def)

lemma reduce_get_Cons:
  "reduce_get m (key # rest) = reduce_get (if truthy m then getProp m key else m) rest"
  by (simp add: reduce_get_def)

lemma getProp_update_same: "getProp (Obj k (AList.update key v ps)) key = v"
  by (simp add: AList.update_conv')

lemma reduce_get_nest: "reduce_get (nest (pre @ post) v) pre = nest post v"
  by (induction pre) (simp_all add: reduce_get_Nil reduce_get_Cons)

lemma reduce_set_fresh:
  "rest \<noteq> [] \<Longrightarrow> reduce_set (Obj Plain []) rest v = (None, nest rest v)"
proof (induction rest)
  case Nil
  then show ?case by simp
next
  case (Cons key rest)
  show ?case
  proof (cases "rest = []")
    case True
    then show ?thesis by simp
  next
    case False
    with Cons.IH have "reduce_set (Obj Plain []) rest v = (None, nest rest v)" by simp
    with False show ?thesis by simp
  qed
qed

lemma intermediates_fresh: "intermediatesAreObjects (Obj Plain []) ks"
  by (induction "Obj Plain []" ks rule: intermediatesAreObjects.induct) simp_all

text \<open>The walk of \<^verbatim>\<open>setModelPropertyValue\<close> along a path whose intermediate values are objects
  or missing: it completes, the path then leads to the value written, and a prefix that led
  nowhere leads to the objects created for the rest of the path.\<close>

lemma reduce_set_path:
  "isObj m \<Longrightarrow> ks \<noteq> [] \<Longrightarrow> intermediatesAreObjects m ks \<Longrightarrow>
     fst (reduce_set m ks v) = None \<and> isObj (snd (reduce_set m ks v)) \<and>
     reduce_get (snd (reduce_set m ks v)) ks = v \<and>
     (\<forall>pre post. ks = pre @ post \<and> pre \<noteq> [] \<and> post \<noteq> [] \<and> reduce_get m pre = Undefined
        \<longrightarrow> reduce_get (snd (reduce_set m ks v)) pre = nest post v)"
proof (induction ks arbitrary: m)
  case Nil
  then show ?case by simp
next
  case (Cons key rest)
  from Cons.prems(1) obtain k ps where m: "m = Obj k ps" by (cases m) simp_all
  show ?case
  proof (cases "rest = []")
    case True
    have "\<And>pre post. [key] = pre @ post \<Longrightarrow> pre \<noteq> [] \<Longrightarrow> post \<noteq> [] \<Longrightarrow> False"
      by (simp add: Cons_eq_append_conv)
    with True m show ?thesis
      by (auto simp add: Let_def getProp_update_same reduce_get_Cons reduce_get_Nil
          simp del: getProp.simps)
  next
    case False
    define child0 where "child0 = (if getProp m key = Undefined then Obj Plain [] else getProp m key)"
    define ps1 where
      "ps1 = (if getProp m key = Undefined then AList.update key (Obj Plain []) ps else ps)"
    from False obtain k2 rest2 where rest: "rest = k2 # rest2" by (cases rest) simp_all
    have obj0: "isObj child0" and int0: "intermediatesAreObjects child0 rest"
      using Cons.prems(3) rest by (auto simp add: child0_def intermediates_fresh)
    note IH = Cons.IH[OF obj0 False int0]
    define child where "child = snd (reduce_set child0 rest v)"
    have rs: "reduce_set m (key # rest) v =
        (fst (reduce_set child0 rest v), Obj k (AList.update key child ps1))"
      using m False
      by (simp add: Let_def ps1_def child_def child0_def getProp_update_same del: getProp.simps)
    have g: "getProp (Obj k (AList.update key child ps1)) key = child"
      by (rule getProp_update_same)
    have p1: "fst (reduce_set m (key # rest) v) = None" using rs IH by simp
    have p2: "isObj (snd (reduce_set m (key # rest) v))" using rs by simp
    have p3: "reduce_get (snd (reduce_set m (key # rest) v)) (key # rest) = v"
      using rs IH g by (simp add: reduce_get_Cons child_def del: getProp.simps)
    have p4: "reduce_get (snd (reduce_set m (key # rest) v)) pre = nest post v"
      if a: "key # rest = pre @ post" "pre \<noteq> []" "post \<noteq> []" "reduce_get m pre = Undefined"
      for pre post
    proof -
      from a(1,2) obtain pre' where pre: "pre = key # pre'" and r: "rest = pre' @ post"
        by (cases pre) simp_all
      have walk: "reduce_get (snd (reduce_set m (key # rest) v)) pre = reduce_get child pre'"
        using rs g pre by (simp add: reduce_get_Cons del: getProp.simps)
      from a(4) m pre have orig: "reduce_get (getProp m key) pre' = Undefined"
        by (simp add: reduce_get_Cons del: getProp.simps)
      show ?thesis
      proof (cases "getProp m key = Undefined")
        case True
        then have "child0 = Obj Plain []" by (simp add: child0_def)
        then have "child = nest rest v" using False by (simp add: child_def reduce_set_fresh)
        with walk r show ?thesis by (simp add: reduce_get_nest)
      next
        case nU: False
        then have c: "child0 = getProp m key" by (simp add: child0_def)
        show ?thesis
        proof (cases "pre' = []")
          case True
          with orig nU show ?thesis by (simp add: reduce_get_Nil)
        next
          case False
          with IH r a(3) orig c have "reduce_get child pre' = nest post v"
            by (simp add: child_def)
          with walk show ?thesis by simp
        qed
      qed
    qed
    from p1 p2 p3 p4 show ?thesis by blast
  qed
qed





lemma reduce_get_falsy: "\<not> truthy m \<Longrightarrow> reduce_get m ks = m"
  by (induction ks) (simp_all add: reduce_get_Nil reduce_get_Cons)

lemma reduce_get_empty_object: "qs \<noteq> [] \<Longrightarrow> reduce_get (Obj Plain []) qs = Undefined"
  by (cases qs) (simp_all add: reduce_get_Cons reduce_get_falsy)

lemma getProp_update_other:
  "key' \<noteq> key \<Longrightarrow> getProp (Obj k (AList.update key v ps)) key' = getProp (Obj k ps) key'"
  by (simp add: AList.update_conv')

text \<open>\<^verbatim>\<open>setModelPropertyValue\<close> at the first segment of a path, on an object.\<close>

lemma reduce_set_Cons_Obj:
  "reduce_set (Obj k ps) (key # rest) v =
     (let child0 = (if rest = [] then v
                    else if getProp (Obj k ps) key = Undefined then Obj Plain []
                    else getProp (Obj k ps) key);
          r = reduce_set child0 rest v
      in (fst r, Obj k (AList.update key (snd r)
            (if rest = [] then AList.update key v
                 (if getProp (Obj k ps) key = Undefined then AList.update key (Obj Plain []) ps else ps)
             else if getProp (Obj k ps) key = Undefined then AList.update key (Obj Plain []) ps
             else ps))))"
  by (simp add: Let_def getProp_update_same del: getProp.simps)

lemma getProp_reduce_set_other:
  "b \<noteq> a \<Longrightarrow> getProp (snd (reduce_set (Obj k ps) (a # rest) v)) b = getProp (Obj k ps) b"
  by (simp add: reduce_set_Cons_Obj Let_def getProp_update_other del: getProp.simps reduce_set.simps)

lemma getProp_reduce_set_same:
  "rest \<noteq> [] \<Longrightarrow> getProp (snd (reduce_set (Obj k ps) (a # rest) v)) a =
     snd (reduce_set (if getProp (Obj k ps) a = Undefined then Obj Plain [] else getProp (Obj k ps) a) rest v)"
  by (simp add: reduce_set_Cons_Obj Let_def getProp_update_same del: getProp.simps reduce_set.simps)

lemma reduce_set_frame:
  "isObj m \<Longrightarrow> intermediatesAreObjects m (common @ a # r1) \<Longrightarrow> a \<noteq> b \<Longrightarrow>
     reduce_get (snd (reduce_set m (common @ a # r1) v)) (common @ b # r2)
       = reduce_get m (common @ b # r2)"
proof (induction common arbitrary: m)
  case Nil
  from Nil.prems(1) obtain k ps where m: "m = Obj k ps" by (cases m) simp_all
  have "isObj (snd (reduce_set m (a # r1) v))" using m by (simp add: Let_def)
  then have t: "truthy (snd (reduce_set m (a # r1) v))" by (rule truthy_Obj)
  from Nil.prems(3) have "getProp (snd (reduce_set m (a # r1) v)) b = getProp m b"
    unfolding m by (intro getProp_reduce_set_other) simp
  with t m show ?case by (simp add: reduce_get_Cons del: reduce_set.simps getProp.simps)
next
  case (Cons c cs)
  from Cons.prems(1) obtain k ps where m: "m = Obj k ps" by (cases m) simp_all
  let ?rest = "cs @ a # r1"
  let ?child0 = "if getProp m c = Undefined then Obj Plain [] else getProp m c"
  have ne: "?rest \<noteq> []" by simp
  then obtain k2 rest2 where rest: "?rest = k2 # rest2" by (cases ?rest) simp_all
  have obj0: "isObj ?child0" and int0: "intermediatesAreObjects ?child0 ?rest"
    using Cons.prems(2) unfolding append_Cons rest by (auto simp add: intermediates_fresh)
  have "isObj (snd (reduce_set m (c # ?rest) v))" using m by (simp add: Let_def)
  then have t: "truthy (snd (reduce_set m (c # ?rest) v))" by (rule truthy_Obj)
  have g: "getProp (snd (reduce_set m (c # ?rest) v)) c = snd (reduce_set ?child0 ?rest v)"
    unfolding m using ne by (rule getProp_reduce_set_same)
  have "reduce_get (snd (reduce_set m (c # ?rest) v)) (c # cs @ b # r2)
      = reduce_get (snd (reduce_set ?child0 ?rest v)) (cs @ b # r2)"
    using t g by (simp add: reduce_get_Cons del: reduce_set.simps getProp.simps)
  also have "\<dots> = reduce_get ?child0 (cs @ b # r2)"
    by (rule Cons.IH[OF obj0 int0 Cons.prems(3)])
  also have "\<dots> = reduce_get (getProp m c) (cs @ b # r2)"
    by (simp add: reduce_get_empty_object reduce_get_falsy)
  also have "\<dots> = reduce_get m (c # cs @ b # r2)"
    using m by (simp add: reduce_get_Cons del: getProp.simps)
  finally show ?case by simp
qed

text \<open>
  X2. \<^verbatim>\<open>setModelPropertyValue\<close> writes along its path only: for a model that is an object
  and a path whose intermediate values, where present, are objects, it completes, and every
  path that leaves the written path at some segment resolves afterwards as it did before.
\<close>

theorem setModelPropertyValue_frame:
  assumes "isObj model" and "pathArray property = Some (common @ a # r1)"
    and "intermediatesAreObjects model (common @ a # r1)" and "a \<noteq> b"
  shows "fst (setModelPropertyValue model property v) = None \<and>
     reduce_get (snd (setModelPropertyValue model property v)) (common @ b # r2)
       = reduce_get model (common @ b # r2)"
proof -
  have "fst (reduce_set model (common @ a # r1) v) = None"
    using reduce_set_path[OF assms(1) _ assms(3), of v] by simp
  with assms(2) reduce_set_frame[OF assms(1,3,4), of v r2] show ?thesis
    by (simp add: setModelPropertyValue_def)
qed


theorem setModelPropertyValue_frame_witness:
  "isObj (Obj Plain [(''data'', Obj Plain [(''firstName'', Str ''Jhon''), (''age'', Num 30)])])
   \<and> pathArray (PString ''data.firstName'') = Some ([''data''] @ ''firstName'' # [])
   \<and> ''firstName'' \<noteq> ''age''
   \<and> reduce_get
        (snd (setModelPropertyValue
               (Obj Plain [(''data'', Obj Plain [(''firstName'', Str ''Jhon''), (''age'', Num 30)])])
               (PString ''data.firstName'') (Str ''Bob'')))
        ([''data''] @ ''age'' # []) = Num 30"
proof -
  let ?m = "Obj Plain [(''data'', Obj Plain [(''firstName'', Str ''Jhon''), (''age'', Num 30)])]"
  have o: "isObj ?m" by simp
  have p: "pathArray (PString ''data.firstName'') = Some ([''data''] @ ''firstName'' # [])"
    by (simp add: match_path_def isSeparator_def)
  have i: "intermediatesAreObjects ?m ([''data''] @ ''firstName'' # [])" by simp
  have n: "''firstName'' \<noteq> ''age''" by simp
  have g: "reduce_get ?m ([''data''] @ ''age'' # []) = Num 30" by (simp add: reduce_get_def)
  from setModelPropertyValue_frame[OF o p i n, of "Str ''Bob''" "[]"] g o p n show ?thesis
    by simp
qed

text \<open>
  C4. \<^verbatim>\<open>getModelPropertyValue\<close> on a non-empty string path made of separators only, such as
  \<^verbatim>\<open>'.'\<close> or \<^verbatim>\<open>'[]'\<close>: \<^verbatim>\<open>match\<close> finds no segment and returns \<^verbatim>\<open>null\<close>, and the call of
  \<^verbatim>\<open>reduce\<close> on it raises a TypeError; neither the default nor a resolved value is returned.
\<close>

theorem getModelPropertyValue_separators:
  "getModelPropertyValue model (PString ''.'') d = Inl TypeError
   \<and> getModelPropertyValue model (PString ''[]'') d = Inl TypeError"
  by (simp add: getModelPropertyValue_def match_path_def isSeparator_def)

text \<open>
  X1. \<^verbatim>\<open>getModelPropertyValue\<close> returns \<^verbatim>\<open>undefined\<close> for a falsy path; for a path that gives an
  array of segments (an array, or a string in which \<^verbatim>\<open>match\<close> finds a segment) it returns the
  default when the walk resolves to \<^verbatim>\<open>null\<close> or \<^verbatim>\<open>undefined\<close>, and the resolved value
  otherwise; for a string in which \<^verbatim>\<open>match\<close> finds no segment it raises a TypeError.
\<close>

theorem getModelPropertyValue_walk:
  "(\<not> truthyProperty property \<longrightarrow> getModelPropertyValue model property d = Inr Undefined)
   \<and> (truthyProperty property \<and> pathArray property = Some ks \<longrightarrow>
        getModelPropertyValue model property d
          = Inr (if nullish (reduce_get model ks) then d else reduce_get model ks))
   \<and> (truthyProperty property \<and> pathArray property = None \<longrightarrow>
        getModelPropertyValue model property d = Inl TypeError)"
  by (simp add: getModelPropertyValue_def)


theorem getModelPropertyValue_walk_witness:
  "getModelPropertyValue jhon (PString ''data.firstName'') Null = Inr (Str ''Jhon'')
   \<and> getModelPropertyValue jhon (PString ''data.lastName'') (Str ''none'') = Inr (Str ''none'')
   \<and> getModelPropertyValue jhon (PString []) Null = Inr Undefined
   \<and> getModelPropertyValue jhon (PArray []) Null = Inr jhon"
  using getModelPropertyValue_walk [of "PString ''data.firstName''" jhon Null "[''data'', ''firstName'']"]
    getModelPropertyValue_walk [of "PString ''data.lastName''" jhon "Str ''none''" "[''data'', ''lastName'']"]
    getModelPropertyValue_walk [of "PString []" jhon Null "[]"]
    getModelPropertyValue_walk [of "PArray []" jhon Null "[]"]
  by (simp add: jhon_def match_path_def isSeparator_def reduce_get_def nullish_def)


section \<open>Properties of the registry\<close>







section \<open>Properties of \<^verbatim>\<open>evaluateExpression\<close>\<close>

text \<open>
  C7. With the view-model signal passed and holding \<open>x\<close>, \<^verbatim>\<open>evaluateExpression\<close> returns its
  argument, on every platform and so whatever \<^verbatim>\<open>eval\<close> would do, unless the argument is a
  string that includes \<^verbatim>\<open>$vm\<close> while \<open>x\<close> is neither \<^verbatim>\<open>null\<close> nor \<^verbatim>\<open>undefined\<close>, or includes
  \<^verbatim>\<open>$event\<close> while the event is neither; in \<^verbatim>\<open>unnamed/part_000\<close> also when no signal is passed.
  In the excepted cases the result is that of \<^verbatim>\<open>eval\<close>.
\<close>

theorem evaluateExpression_unchanged:
  "(\<not> ((mentions v ''$vm'' \<and> \<not> nullish x) \<or> (mentions v ''$event'' \<and> \<not> nullish event)) \<longrightarrow>
      evaluateExpression p v (Some x) event = Inr v \<and>
      evaluateExpression_p0 p v (Some x) event = Inr v)
   \<and> (\<not> (mentions v ''$event'' \<and> \<not> nullish event) \<longrightarrow>
      evaluateExpression_p0 p v None event = Inr v)
   \<and> ((mentions (Str s) ''$vm'' \<and> \<not> nullish x) \<or> (mentions (Str s) ''$event'' \<and> \<not> nullish event) \<longrightarrow>
      evaluateExpression p (Str s) (Some x) event = js_eval p s (Some x) event \<and>
      evaluateExpression_p0 p (Str s) (Some x) event = js_eval p s (Some x) event)"
  by (cases v) (auto simp add: evaluateExpression_def evaluateExpression_p0_def holdsValue_def)

theorem evaluateExpression_unchanged_witness:
  "evaluateExpression throwing (Str ''$vm().a'') (Some Null) Undefined = Inr (Str ''$vm().a'')
   \<and> evaluateExpression_p0 throwing (Str ''hello'') (Some (Num 1)) (Num 2) = Inr (Str ''hello'')
   \<and> evaluateExpression throwing (Num 3) (Some (Num 1)) (Num 2) = Inr (Num 3)
   \<and> evaluateExpression throwing (Str ''$vm().a'') (Some (Num 1)) Undefined
     = Inl (Thrown (Str ''$vm().a''))"
  using evaluateExpression_unchanged [of "Str ''$vm().a''" Null Undefined throwing "''$vm().a''"]
    evaluateExpression_unchanged [of "Str ''hello''" "Num 1" "Num 2" throwing "''$vm().a''"]
    evaluateExpression_unchanged [of "Num 3" "Num 1" "Num 2" throwing "''$vm().a''"]
    evaluateExpression_unchanged [of "Num 3" "Num 1" "Undefined" throwing "''$vm().a''"]
  by (simp add: nullish_def throwing_def)


section \<open>Properties of the component\<close>

text \<open>
  C1. When the configuration has a \<^verbatim>\<open>type\<close> that is neither \<^verbatim>\<open>null\<close> nor \<^verbatim>\<open>undefined\<close> and
  \<^verbatim>\<open>_component\<close> is not set, \<^verbatim>\<open>loadComponentAsync\<close> stores in \<^verbatim>\<open>_component\<close>: for a string, what
  the registry holds under it (awaited, in \<^verbatim>\<open>unnamed/part_000\<close>, where an entry may be a
  promise); for anything else, the result of awaiting the \<^verbatim>\<open>type\<close>.
\<close>

theorem loadComponentAsync_resolves:
  assumes "configuration h = Some c" and "\<not> nullish (type c)" and "\<not> truthy (component s)"
  shows "(\<forall>name. type c = Str name \<longrightarrow>
            loadComponentAsync p h s
              = (None, s\<lparr>component := getComponentByName (components h) name\<rparr>)
          \<and> (\<forall>ty. await p (getComponent (components h) name) = Inr ty \<longrightarrow>
                loadComponentAsync_p0 p h s = (None, s\<lparr>component := ty\<rparr>)))
       \<and> (\<not> isString (type c) \<longrightarrow>
            (\<forall>ty. await p (type c) = Inr ty \<longrightarrow>
               loadComponentAsync p h s = (None, s\<lparr>component := ty\<rparr>)
             \<and> loadComponentAsync_p0 p h s = (None, s\<lparr>component := ty\<rparr>)))"
  using assms
  by (cases "type c") (simp_all add: loadComponentAsync_def loadComponentAsync_p0_def)

theorem loadComponentAsync_resolves_witness:
  "\<not> nullish (Str ''A'') \<and> \<not> truthy (component initial)
   \<and> loadComponentAsync lazy
        (emptyHost\<lparr>configuration := Some (emptyItem\<lparr>type := Str ''A''\<rparr>),
                    components := [(''A'', Obj (Function 1) [])]\<rparr>) initial
      = (None, initial\<lparr>component := Obj (Function 1) []\<rparr>)
   \<and> loadComponentAsync_p0 lazy
        (emptyHost\<lparr>configuration := Some (emptyItem\<lparr>type := Str ''A''\<rparr>),
                    components := [(''A'', Obj (Promise 2) [])]\<rparr>) initial
      = (None, initial\<lparr>component := Obj (Function 2) []\<rparr>)
   \<and> loadComponentAsync lazy
        (emptyHost\<lparr>configuration := Some (emptyItem\<lparr>type := Obj (Promise 3) []\<rparr>)\<rparr>) initial
      = (None, initial\<lparr>component := Obj (Function 3) []\<rparr>)"
  using loadComponentAsync_resolves [of
      "emptyHost\<lparr>configuration := Some (emptyItem\<lparr>type := Str ''A''\<rparr>),
                  components := [(''A'', Obj (Function 1) [])]\<rparr>"
      "emptyItem\<lparr>type := Str ''A''\<rparr>" initial lazy]
    loadComponentAsync_resolves [of
      "emptyHost\<lparr>configuration := Some (emptyItem\<lparr>type := Str ''A''\<rparr>),
                  components := [(''A'', Obj (Promise 2) [])]\<rparr>"
      "emptyItem\<lparr>type := Str ''A''\<rparr>" initial lazy]
    loadComponentAsync_resolves [of
      "emptyHost\<lparr>configuration := Some (emptyItem\<lparr>type := Obj (Promise 3) []\<rparr>)\<rparr>"
      "emptyItem\<lparr>type := Obj (Promise 3) []\<rparr>" initial lazy]
  by (simp add: nullish_def initial_def emptyHost_def emptyItem_def lazy_def throwing_def
      await_def getComponent_def getComponentByName_def)


text \<open>
  C2, as the code has it. The test on the view model is \<^verbatim>\<open>this.viewModel()\<close>, its truthiness:
  with a form group, the name \<^verbatim>\<open>a\<close> and the view model \<^verbatim>\<open>0\<close>, which is not \<^verbatim>\<open>null\<close>,
  \<^verbatim>\<open>createFormControl\<close> constructs no control and calls nothing, in both versions.
\<close>

theorem createFormControl_falsy_viewModel:
  "formGroup zeroHost \<and> \<not> nullish (viewModel zeroHost)
   \<and> map_option modelProperty (configuration zeroHost) = Some (Some ''a'')
   \<and> createFormControl zeroHost initial = (None, initial)
   \<and> createFormControl_p0 throwing zeroHost initial = (None, initial)"
  by (simp add: zeroHost_def emptyHost_def emptyItem_def nullish_def createFormControl_def
      createFormControl_p0_def entry_def)

lemma calls_attach: "calls (attachFormControlDirective s) = calls s @
    (if \<not> formControlDirective s \<and> componentRef s \<noteq> None
     then [NewFormControlDirective, AttachDirective] else [])"
  by (simp add: attachFormControlDirective_def call_def)

lemma formControl_attach: "formControl (attachFormControlDirective s) = formControl s"
  by (simp add: attachFormControlDirective_def call_def)

lemma calls_attach_p0: "calls (attachFormControlDirective_p0 s) = calls s @ 
    (if formControlDirective s \<and> componentRef s \<noteq> None \<and> formControl s \<noteq> None then [AttachDirective] else [])"
  by (simp add: attachFormControlDirective_p0_def call_def)

lemma formControl_attach_p0: "formControl (attachFormControlDirective_p0 s) = formControl s"
  by (simp add: attachFormControlDirective_p0_def call_def)

lemma match_path_nonempty: "match_path name = Some ks \<Longrightarrow> name \<noteq> []"
  by (auto simp add: match_path_def)

text \<open>
  C2, amended. With a form group, a truthy view model and a name that has at least one
  segment (the \<^verbatim>\<open>modelProperty\<close> of the configuration; in \<^verbatim>\<open>unnamed/part_000\<close> the string that a
  truthy \<^verbatim>\<open>name\<close> attribute evaluates to), \<^verbatim>\<open>createFormControl\<close> completes, \<^verbatim>\<open>_formControl\<close> is a
  control whose initial value is the value of the view model at that path, \<^verbatim>\<open>null\<close> when the
  path leads to \<^verbatim>\<open>null\<close> or \<^verbatim>\<open>undefined\<close>, and \<^verbatim>\<open>addControl\<close> has been called with the name and
  that control.
\<close>

theorem createFormControl_constructs:
  assumes "formGroup h" and "configuration h = Some c" and "truthy (viewModel h)"
    and "match_path name = Some ks"
  shows "(modelProperty c = Some name \<longrightarrow>
            fst (createFormControl h s) = None \<and>
            (\<exists>fc. formControl (snd (createFormControl h s)) = Some fc \<and>
               fc_value fc = (if nullish (reduce_get (viewModel h) ks) then Null
                              else reduce_get (viewModel h) ks) \<and>
               AddControl name fc \<in> set (calls (snd (createFormControl h s)))))
       \<and> (\<forall>attrs. attributes c = Some attrs \<and> truthy (entry attrs ''name'') \<and>
              ev_p0 p h (entry attrs ''name'') = Inr (Str name) \<longrightarrow>
            fst (createFormControl_p0 p h s) = None \<and>
            (\<exists>fc. formControl (snd (createFormControl_p0 p h s)) = Some fc \<and>
               fc_value fc = (if nullish (reduce_get (viewModel h) ks) then Null
                              else reduce_get (viewModel h) ks) \<and>
               AddControl name fc \<in> set (calls (snd (createFormControl_p0 p h s)))))"
proof -
  from assms(4) have ne: "name \<noteq> []" by (rule match_path_nonempty)
  have g: "getModelPropertyValue (viewModel h) (PString name) Null
      = Inr (if nullish (reduce_get (viewModel h) ks) then Null else reduce_get (viewModel h) ks)"
    using assms(4) ne by (simp add: getModelPropertyValue_def)
  show ?thesis
    using assms(1,2,3) ne g
    by (auto simp add: createFormControl_def createFormControl_p0_def Let_def formControl_attach
        formControl_attach_p0 calls_attach calls_attach_p0 call_def)
qed

theorem createFormControl_constructs_witness:
  "formGroup fullHost \<and> truthy (viewModel fullHost)
   \<and> match_path ''data.firstName'' = Some [''data'', ''firstName'']
   \<and> formControl (snd (createFormControl fullHost initial))
       = Some \<lparr> fc_value = Str ''Jhon'', fc_enabled = True, fc_validators = [] \<rparr>
   \<and> calls (snd (createFormControl fullHost initial))
       = [AddControl ''data.firstName''
            \<lparr> fc_value = Str ''Jhon'', fc_enabled = True, fc_validators = [] \<rparr>,
          SubscribeValueChanges]
   \<and> formControl (snd (createFormControl_p0 throwing fullHost initial))
       = Some \<lparr> fc_value = Str ''Jhon'', fc_enabled = True, fc_validators = [] \<rparr>"
  using createFormControl_constructs [of fullHost
      "emptyItem\<lparr>modelProperty := Some ''data.firstName'',
          attributes := Some [(''name'', Str ''data.firstName'')]\<rparr>"
      "''data.firstName''" "[''data'', ''firstName'']" initial throwing]
  by (simp add: fullHost_def emptyHost_def emptyItem_def jhon_def initial_def throwing_def
      match_path_def isSeparator_def createFormControl_def createFormControl_p0_def
      getModelPropertyValue_def reduce_get_def nullish_def entry_def ev_p0_def
      evaluateExpression_p0_def attachFormControlDirective_def attachFormControlDirective_p0_def
      call_def Let_def)

text \<open>
  C5, as the code has it. In \<^verbatim>\<open>unnamed/part_000\<close> a \<^verbatim>\<open>pattern\<close> that evaluates to a regular
  expression gives no validator: the block of \<^verbatim>\<open>setFormControlValidators\<close> requires a string.
  With the control \<open>control0\<close>, which has no validator, the method changes nothing.
\<close>

theorem setFormControlValidators_regexp:
  "formControl created = Some control0
   \<and> ev_p0 throwing (patternHost (Obj (RegExp ''a+'') [])) (Obj (RegExp ''a+'') [])
       = Inr (Obj (RegExp ''a+'') [])
   \<and> isRegExp (Obj (RegExp ''a+'') [])
   \<and> setFormControlValidators_p0 throwing (patternHost (Obj (RegExp ''a+'') [])) created
       = (None, created)
   \<and> fc_validators control0 = []"
  by (simp add: created_def control0_def ref0_def initial_def patternHost_def emptyHost_def
      emptyItem_def throwing_def ev_p0_def evaluateExpression_p0_def
      setFormControlValidators_p0_def rules_p0_def entry_def whenever_def getAttribute_def)

lemma collect_member:
  "collect e rs = Inr vs \<Longrightarrow> r \<in> set rs \<Longrightarrow> e (fst r) = Inr y \<Longrightarrow> snd r y = Some w
     \<Longrightarrow> w \<in> set vs"
proof (induction rs arbitrary: vs)
  case Nil
  then show ?case by simp
next
  case (Cons a rs)
  from Cons.prems(1) obtain y' vs' where a: "e (fst a) = Inr y'" and c: "collect e rs = Inr vs'"
    and vs: "vs = (case snd a y' of Some w \<Rightarrow> [w] | None \<Rightarrow> []) @ vs'"
    by (auto split: sum.splits)
  show ?case
  proof (cases "r = a")
    case True
    with a Cons.prems(3,4) vs show ?thesis by simp
  next
    case False
    with Cons.prems(2) have "r \<in> set rs" by simp
    from Cons.IH[OF c this Cons.prems(3,4)] vs show ?thesis by simp
  qed
qed

text \<open>
  C5, amended. In \<^verbatim>\<open>unnamed/part_000\<close>, with a form control and a created component, when the
  \<^verbatim>\<open>pattern\<close> attribute evaluates to a string other than the \<^verbatim>\<open>pattern\<close> attribute of the
  element and \<^verbatim>\<open>setFormControlValidators\<close> completes, the validators of the control include
  \<^verbatim>\<open>Validators.pattern\<close> of that string.
\<close>

theorem setFormControlValidators_pattern:
  assumes "formControl s = Some fc" and "configuration h = Some c" and "attributes c = Some attrs"
    and "componentRef s = Some r"
    and "ev_p0 p h (entry attrs ''pattern'') = Inr (Str pat)"
    and "Str pat \<noteq> getAttribute (nativeElement r) ''pattern''"
    and "fst (setFormControlValidators_p0 p h s) = None"
  shows "\<exists>fc'. formControl (snd (setFormControlValidators_p0 p h s)) = Some fc' \<and>
           VPattern (Str pat) \<in> set (fc_validators fc')"
proof -
  have ne: "attrs \<noteq> []"
    using assms(5) by (auto simp add: entry_def ev_p0_def evaluateExpression_p0_def)
  let ?rs = "rules_p0 p (nativeElement r) attrs"
  let ?r = "(entry attrs ''pattern'',
      \<lambda>y. whenever (isString y \<and> y \<noteq> getAttribute (nativeElement r) ''pattern'') (VPattern y))"
  from assms(1-4,7) ne obtain vs where c: "collect (ev_p0 p h) ?rs = Inr vs"
    by (auto simp add: setFormControlValidators_p0_def split: sum.splits)
  have m: "?r \<in> set ?rs" by (simp add: rules_p0_def)
  have w: "snd ?r (Str pat) = Some (VPattern (Str pat))"
    using assms(6) by (simp add: whenever_def)
  have e: "ev_p0 p h (fst ?r) = Inr (Str pat)" using assms(5) by simp
  from collect_member[OF c m e w] have v: "VPattern (Str pat) \<in> set vs" .
  then have "vs \<noteq> []" by auto
  with assms(1-4) ne c v show ?thesis
    by (simp add: setFormControlValidators_p0_def)
qed

theorem setFormControlValidators_pattern_witness:
  "formControl created = Some control0 \<and> componentRef created = Some ref0
   \<and> ev_p0 throwing (patternHost (Str ''a+'')) (Str ''a+'') = Inr (Str ''a+'')
   \<and> Str ''a+'' \<noteq> getAttribute (nativeElement ref0) ''pattern''
   \<and> setFormControlValidators_p0 throwing (patternHost (Str ''a+'')) created
       = (None, created\<lparr>formControl := Some (control0\<lparr>fc_validators := [VPattern (Str ''a+'')]\<rparr>)\<rparr>)"
  using setFormControlValidators_pattern [of created control0 "patternHost (Str ''a+'')"
      "emptyItem\<lparr>pattern := Str ''a+'', attributes := Some [(''pattern'', Str ''a+'')]\<rparr>"
      "[(''pattern'', Str ''a+'')]" ref0 throwing "''a+''"]
  by (simp add: created_def control0_def ref0_def initial_def patternHost_def emptyHost_def
      emptyItem_def throwing_def ev_p0_def evaluateExpression_p0_def
      setFormControlValidators_p0_def rules_p0_def entry_def whenever_def getAttribute_def)

text \<open>In \<^verbatim>\<open>fg-dynamic.component.ts\<close> the block evaluates \<^verbatim>\<open>minLength\<close>: a configured \<^verbatim>\<open>pattern\<close>
  gives no validator, and a string for \<^verbatim>\<open>minLength\<close> gives \<^verbatim>\<open>Validators.pattern\<close> of it.\<close>

lemma setFormControlValidators_minLength:
  "setFormControlValidators throwing (patternHost (Str ''a+'')) created = (None, created)
   \<and> setFormControlValidators throwing
        (emptyHost\<lparr>configuration := Some (emptyItem\<lparr>minLength := Str ''a+''\<rparr>)\<rparr>) created
      = (None, created\<lparr>formControl := Some (control0\<lparr>fc_validators := [VPattern (Str ''a+'')]\<rparr>)\<rparr>)"
  by (simp add: created_def control0_def ref0_def initial_def patternHost_def emptyHost_def
      emptyItem_def throwing_def ev_def evaluateExpression_def
      setFormControlValidators_def rules_def entry_def whenever_def)

lemma setInputs_each_all:
  "\<forall>k\<in>set ks. e (entry ins k) = Inr (vals k) \<Longrightarrow>
     setInputs_each e ins ks s = (None, call (map (\<lambda>k. SetInput k (vals k)) ks) s)"
proof (induction ks arbitrary: s)
  case Nil
  then show ?case by (simp add: call_def)
next
  case (Cons k ks)
  then show ?case by (simp add: call_def)
qed

lemma setInputs_each_only:
  "SetInput n v \<in> set (calls (snd (setInputs_each e ins ks s))) \<Longrightarrow>
     SetInput n v \<in> set (calls s) \<or> n \<in> set ks"
proof (induction ks arbitrary: s)
  case Nil
  then show ?case by simp
next
  case (Cons k ks)
  show ?case
  proof (cases "e (entry ins k)")
    case (Inl a)
    with Cons.prems show ?thesis by simp
  next
    case (Inr w)
    with Cons.prems have "SetInput n v \<in> set (calls (snd (setInputs_each e ins ks (call [SetInput k w] s))))"
      by simp
    from Cons.IH[OF this] show ?thesis by (auto simp add: call_def)
  qed
qed

text \<open>
  C9. With a configuration that has \<^verbatim>\<open>inputs\<close> and a created component: when every
  configured value evaluates, to \<open>vals k\<close> for the key \<open>k\<close>, \<^verbatim>\<open>setInputs\<close> completes and has made
  exactly the calls \<^verbatim>\<open>setInput(k, vals k)\<close>, one for each key of the record in its order, and
  changed nothing else; and whether the values evaluate or not, \<^verbatim>\<open>setInputs\<close> sets no input
  that is not a key of the record.
\<close>

theorem setInputs_sets:
  assumes "configuration h = Some c" and "inputs c = Some ins" and "componentRef s \<noteq> None"
  shows "((\<forall>k\<in>set (map fst ins). ev p h (entry ins k) = Inr (vals k)) \<longrightarrow>
            setInputs p h s = (None, call (map (\<lambda>k. SetInput k (vals k)) (map fst ins)) s))
       \<and> ((\<forall>k\<in>set (map fst ins). ev_p0 p h (entry ins k) = Inr (vals k)) \<longrightarrow>
            setInputs_p0 p h s = (None, call (map (\<lambda>k. SetInput k (vals k)) (map fst ins)) s))
       \<and> (\<forall>n v. SetInput n v \<in> set (calls (snd (setInputs p h s))) \<longrightarrow>
            SetInput n v \<in> set (calls s) \<or> n \<in> set (map fst ins))
       \<and> (\<forall>n v. SetInput n v \<in> set (calls (snd (setInputs_p0 p h s))) \<longrightarrow>
            SetInput n v \<in> set (calls s) \<or> n \<in> set (map fst ins))"
proof -
  have a: "setInputs p h s = setInputs_each (ev p h) ins (map fst ins) s"
    using assms by (simp add: setInputs_def)
  have b: "setInputs_p0 p h s = setInputs_each (ev_p0 p h) ins (map fst ins) s"
    using assms by (cases ins) (simp_all add: setInputs_p0_def)
  show ?thesis
    unfolding a b
    using setInputs_each_all[of "map fst ins" "ev p h" ins vals s]
      setInputs_each_all[of "map fst ins" "ev_p0 p h" ins vals s]
      setInputs_each_only[of _ _ "ev p h" ins "map fst ins" s]
      setInputs_each_only[of _ _ "ev_p0 p h" ins "map fst ins" s]
    by blast
qed

theorem setInputs_sets_witness:
  "componentRef (initial\<lparr>componentRef := Some ref0\<rparr>) \<noteq> None
   \<and> setInputs counting inputsHost (initial\<lparr>componentRef := Some ref0\<rparr>)
     = (None, initial\<lparr>componentRef := Some ref0,
                       calls := [SetInput ''hello'' (Str ''world''), SetInput ''count'' (Num 2)]\<rparr>)
   \<and> setInputs_p0 counting inputsHost (initial\<lparr>componentRef := Some ref0\<rparr>)
     = (None, initial\<lparr>componentRef := Some ref0,
                       calls := [SetInput ''hello'' (Str ''world''), SetInput ''count'' (Num 2)]\<rparr>)"
  using setInputs_sets [of inputsHost
      "emptyItem\<lparr>inputs := Some [(''hello'', Str ''world''), (''count'', Str ''$vm().count'')]\<rparr>"
      "[(''hello'', Str ''world''), (''count'', Str ''$vm().count'')]"
      "initial\<lparr>componentRef := Some ref0\<rparr>" counting
      "\<lambda>k. if k = ''hello'' then Str ''world'' else Num 2"]
  by (simp add: inputsHost_def emptyHost_def emptyItem_def initial_def counting_def throwing_def
      ev_def ev_p0_def evaluateExpression_def evaluateExpression_p0_def holdsValue_def nullish_def
      entry_def call_def)































































lemma run_typedHost_p0:
  "run ngOnChanges_p0 [(creating, typedHost)] initial =
   initial\<lparr>component := Obj (Function 1) [],
     componentRef := Some \<lparr> componentType = Obj (Function 1) [], emitters = [], nativeElement = [] \<rparr>,
     calls := [CreateComponent (Obj (Function 1) []) False False, MarkForCheck,
               SetInput ''hello'' (Str ''world'')]\<rparr>"
  by (simp add: ngOnChanges_p0_def loadComponentAsync_p0_def createComponent_p0_def setInputs_p0_def
      setAttributes_p0_def setFormControlStatus_p0_def setFormControlValidators_p0_def
      creating_def throwing_def typedHost_def emptyHost_def emptyItem_def initial_def
      getComponent_def await_def nullish_def call_def removeHostElement_def handleOutputs_p0_def
      createFormControl_p0_def namesControl_p0_def ev_p0_def evaluateExpression_p0_def entry_def Let_def)


lemma again_typedHost_p0:
  "ngOnChanges_p0 creating typedHost (run ngOnChanges_p0 [(creating, typedHost)] initial) =
   (None, call [SetInput ''hello'' (Str ''world'')] (run ngOnChanges_p0 [(creating, typedHost)] initial))"
  unfolding run_typedHost_p0
  by (simp add: ngOnChanges_p0_def loadComponentAsync_p0_def createComponent_p0_def setInputs_p0_def
      setAttributes_p0_def setFormControlStatus_p0_def setFormControlValidators_p0_def
      creating_def throwing_def typedHost_def emptyHost_def emptyItem_def initial_def
      nullish_def call_def ev_p0_def evaluateExpression_p0_def entry_def Let_def)


text \<open>
  C6. In \<^verbatim>\<open>fg-dynamic.component.ts\<close> the subscriber reads the new value of the control out of
  the raw value of the form group with \<^verbatim>\<open>getModelPropertyValue\<close>, that is by walking the path.
  The form group holds the control under the whole name, so for the control registered as
  \<^verbatim>\<open>'data.firstName'\<close> and holding \<^verbatim>\<open>'Bob'\<close> the raw value is \<^verbatim>\<open>{'data.firstName': 'Bob'}\<close>, the
  walk finds nothing, and the view model gets \<^verbatim>\<open>null\<close> at \<^verbatim>\<open>data.firstName\<close>. The subscriber of
  \<^verbatim>\<open>unnamed/part_000\<close>, which is handed the new value, writes \<^verbatim>\<open>'Bob'\<close>.
\<close>

theorem formGroupValueChanges_dotted:
  "formGroupValueChanges
     (emptyHost\<lparr>configuration := Some (emptyItem\<lparr>modelProperty := Some ''data.firstName''\<rparr>),
                 viewModel := jhon, formGroup := True\<rparr>)
     (Obj Plain [(''data.firstName'', Str ''Bob'')])
   = (None, Obj Plain [(''data'', Obj Plain [(''firstName'', Null)])])
   \<and> formControlValueChanges (emptyHost\<lparr>viewModel := jhon, formGroup := True\<rparr>)
        ''data.firstName'' (Str ''Bob'')
   = (None, Obj Plain [(''data'', Obj Plain [(''firstName'', Str ''Bob'')])])"
  by (simp add: formGroupValueChanges_def formControlValueChanges_def emptyHost_def emptyItem_def
      jhon_def modelPropertyOf_def getModelPropertyValue_def setModelPropertyValue_def
      match_path_def isSeparator_def reduce_get_def nullish_def Let_def)

text \<open>
  X3. In \<^verbatim>\<open>unnamed/part_000\<close>, when the view model can be cloned, the clone is an object and the
  name of the control is a path with at least one segment whose intermediate values in it,
  where present, are objects: the subscriber of the control's \<^verbatim>\<open>valueChanges\<close> completes and
  sets the view-model signal to a value in which the path resolves to the value emitted and
  every path that leaves it at some segment resolves as in the clone.
\<close>

theorem formControlValueChanges_sets:
  assumes "structuredClone (viewModel h) = Inr vm" and "isObj vm"
    and "match_path name = Some ks" and "intermediatesAreObjects vm ks"
  shows "fst (formControlValueChanges h name v) = None \<and>
     reduce_get (snd (formControlValueChanges h name v)) ks = v \<and>
     (\<forall>common a b r1 r2. ks = common @ a # r1 \<and> a \<noteq> b \<longrightarrow>
        reduce_get (snd (formControlValueChanges h name v)) (common @ b # r2)
          = reduce_get vm (common @ b # r2))"
proof -
  from assms(3) have ne: "ks \<noteq> []" by (auto simp add: match_path_def split: list.splits)
  note p = reduce_set_path[OF assms(2) ne assms(4), of v]
  have f: "formControlValueChanges h name v = (None, snd (reduce_set vm ks v))"
    using assms(1,3) conjunct1[OF p]
    by (cases "reduce_set vm ks v")
      (simp add: formControlValueChanges_def setModelPropertyValue_def)
  have "reduce_get (snd (reduce_set vm ks v)) (common @ b # r2) = reduce_get vm (common @ b # r2)"
    if "ks = common @ a # r1" "a \<noteq> b" for common a b r1 r2
    using reduce_set_frame[OF assms(2), of common a r1 b v r2] assms(4) that by simp
  with f p show ?thesis by simp
qed

theorem formControlValueChanges_sets_witness:
  "structuredClone (viewModel (emptyHost\<lparr>viewModel :=
       Obj Plain [(''data'', Obj Plain [(''firstName'', Str ''Jhon''), (''age'', Num 30)])]\<rparr>))
     = Inr (Obj Plain [(''data'', Obj Plain [(''firstName'', Str ''Jhon''), (''age'', Num 30)])])
   \<and> match_path ''data.firstName'' = Some [''data'', ''firstName'']
   \<and> formControlValueChanges (emptyHost\<lparr>viewModel :=
         Obj Plain [(''data'', Obj Plain [(''firstName'', Str ''Jhon''), (''age'', Num 30)])]\<rparr>)
       ''data.firstName'' (Str ''Bob'')
     = (None, Obj Plain [(''data'', Obj Plain [(''firstName'', Str ''Bob''), (''age'', Num 30)])])"
  using formControlValueChanges_sets [of
      "emptyHost\<lparr>viewModel :=
         Obj Plain [(''data'', Obj Plain [(''firstName'', Str ''Jhon''), (''age'', Num 30)])]\<rparr>"
      "Obj Plain [(''data'', Obj Plain [(''firstName'', Str ''Jhon''), (''age'', Num 30)])]"
      "''data.firstName''" "[''data'', ''firstName'']" "Str ''Bob''"]
  by (simp add: emptyHost_def formControlValueChanges_def setModelPropertyValue_def
      match_path_def isSeparator_def Let_def)

end
